theory Spec2Isabelle
  imports Complex_Main "HOL-Library.Sublist"
begin

section \<open>Data model\<close>

text \<open>
  One row of the listings table of \<^verbatim>\<open>vistahaven_analysis.py\<close>. Numeric cells that the
  program computes in floating point are modelled by exact rationals; the only nullable
  column is \<open>review_scores_rating\<close> (a missing rating is \<open>None\<close>, pandas' NaN).

  A cell of one of the six boolean columns is a Python \<open>bool\<close> (as the generator
  produces it) or an integer (as \<open>astype(int)\<close> leaves it).
\<close>

datatype flagv = PyBool bool | PyInt int

record listing =
  listing_id :: int
  city :: string
  neighborhood :: string
  property_type :: string
  room_type :: string
  accommodates :: int
  bedrooms :: int
  bathrooms :: rat
  price :: rat
  minimum_nights :: int
  number_of_reviews :: int
  review_scores_rating :: "rat option"
  host_is_superhost :: flagv
  host_listings_count :: int
  instant_bookable :: flagv
  availability_365 :: int
  num_amenities :: int
  has_wifi :: flagv
  has_kitchen :: flagv
  has_parking :: flagv
  has_pool :: flagv

type_synonym dataset = "listing list"

section \<open>The cleaner\<close>

subsection \<open>Column statistics of pandas\<close>

text \<open>\<open>Series.median()\<close>: the missing cells are skipped; an empty column gives NaN.\<close>

definition median :: "rat option list \<Rightarrow> rat option" where
  "median col =
     (let s = sort (List.map_filter id col); n = length s
      in if n = 0 then None
         else if odd n then Some (s ! (n div 2))
         else Some ((s ! (n div 2 - 1) + s ! (n div 2)) / 2))"

text \<open>
  \<open>Series.quantile(q)\<close> with the default linear interpolation: on the sorted column the
  position is \<open>(n - 1) * q\<close>, and the value is interpolated between the two neighbours of
  that position. An empty column gives NaN.
\<close>

definition quantile :: "rat list \<Rightarrow> rat \<Rightarrow> rat option" where
  "quantile col q =
     (let s = sort col; n = length s
      in if n = 0 then None
         else
           let h = of_nat (n - 1) * q; lo = nat \<lfloor>h\<rfloor>; frac = h - of_nat lo
           in if lo + 1 < n then Some (s ! lo + (s ! (lo + 1) - s ! lo) * frac)
              else Some (s ! (n - 1)))"

text \<open>\<open>fillna(value)\<close> on one cell; filling with NaN leaves the cell missing.\<close>

definition fillna :: "rat option \<Rightarrow> rat option \<Rightarrow> rat option" where
  "fillna v x = (case x of None \<Rightarrow> v | Some y \<Rightarrow> Some y)"

text \<open>\<open>astype(int)\<close> on one cell of a boolean column.\<close>

fun astype_int :: "flagv \<Rightarrow> flagv" where
  "astype_int (PyBool b) = PyInt (if b then 1 else 0)"
| "astype_int (PyInt i) = PyInt i"

text \<open>The comparisons \<open>price >= q01\<close> and \<open>price <= q99\<close>; a comparison with NaN is false.\<close>

definition ge_q :: "rat \<Rightarrow> rat option \<Rightarrow> bool" where
  "ge_q p q = (case q of None \<Rightarrow> False | Some a \<Rightarrow> a \<le> p)"

definition le_q :: "rat \<Rightarrow> rat option \<Rightarrow> bool" where
  "le_q p q = (case q of None \<Rightarrow> False | Some b \<Rightarrow> p \<le> b)"

subsection \<open>\<open>clean_data\<close>\<close>

definition fill_rating :: "rat option \<Rightarrow> listing \<Rightarrow> listing" where
  "fill_rating med r = r\<lparr>review_scores_rating := fillna med (review_scores_rating r)\<rparr>"

definition convert_bools :: "listing \<Rightarrow> listing" where
  "convert_bools r =
     r\<lparr>host_is_superhost := astype_int (host_is_superhost r),
       instant_bookable := astype_int (instant_bookable r),
       has_wifi := astype_int (has_wifi r),
       has_kitchen := astype_int (has_kitchen r),
       has_parking := astype_int (has_parking r),
       has_pool := astype_int (has_pool r)\<rparr>"

definition clean_data :: "dataset \<Rightarrow> dataset" where
  "clean_data df =
     (let df1 = map (fill_rating (median (map review_scores_rating df))) df;
          q01 = quantile (map price df1) (1 / 100);
          q99 = quantile (map price df1) (99 / 100);
          df2 = filter (\<lambda>r. ge_q (price r) q01 \<and> le_q (price r) q99) df1
      in map convert_bools df2)"

text \<open>
  The pair of cells that the cleaner never rewrites, and the test \<open>q01 <= p <= q99\<close>
  against the two percentiles of a dataset's price column.
\<close>

definition id_price :: "listing \<Rightarrow> int \<times> rat" where
  "id_price r = (listing_id r, price r)"

definition in_band :: "dataset \<Rightarrow> rat \<Rightarrow> bool" where
  "in_band df p =
     (ge_q p (quantile (map price df) (1 / 100)) \<and> le_q p (quantile (map price df) (99 / 100)))"

text \<open>A listing with the given identifier and price, the other cells fixed.\<close>

definition sample_row :: "int \<Rightarrow> rat \<Rightarrow> listing" where
  "sample_row i p =
     \<lparr>listing_id = i, city = ''Chicago'', neighborhood = ''Downtown'',
      property_type = ''Loft'', room_type = ''Private room'', accommodates = 2,
      bedrooms = 1, bathrooms = 1, price = p, minimum_nights = 1,
      number_of_reviews = 3, review_scores_rating = Some 4,
      host_is_superhost = PyBool False, host_listings_count = 1,
      instant_bookable = PyBool True, availability_365 = 100, num_amenities = 5,
      has_wifi = PyBool True, has_kitchen = PyBool True, has_parking = PyBool False,
      has_pool = PyBool False\<rparr>"

definition five_rows :: dataset where
  "five_rows = [sample_row 1 1, sample_row 2 2, sample_row 3 3, sample_row 4 4, sample_row 5 5]"

section \<open>The data source\<close>

subsection \<open>The random number generator\<close>

text \<open>
  The generator draws from numpy's global random state. The state is a value of an
  arbitrary type \<open>'g\<close>; the library calls the generator uses are the fields of
  \<open>np_random\<close>, each taking the current state and returning the drawn value with the
  next state. \<open>np.random.seed(s)\<close> replaces the state by one that depends on \<open>s\<close>
  only. \<open>np.random.choice\<close> appears at the four element types the generator draws at;
  its second argument is the weight list \<open>p\<close>, absent for a uniform draw.
\<close>

record 'g np_random =
  rnd_seed :: "nat \<Rightarrow> 'g"
  rnd_choice_str :: "string list \<Rightarrow> rat list option \<Rightarrow> 'g \<Rightarrow> string \<times> 'g"
  rnd_choice_num :: "rat list \<Rightarrow> rat list option \<Rightarrow> 'g \<Rightarrow> rat \<times> 'g"
  rnd_choice_int :: "int list \<Rightarrow> rat list option \<Rightarrow> 'g \<Rightarrow> int \<times> 'g"
  rnd_choice_bool :: "bool list \<Rightarrow> rat list option \<Rightarrow> 'g \<Rightarrow> bool \<times> 'g"
  rnd_randint :: "int \<Rightarrow> int \<Rightarrow> 'g \<Rightarrow> int \<times> 'g"
  rnd_poisson :: "rat \<Rightarrow> 'g \<Rightarrow> int \<times> 'g"
  rnd_uniform :: "rat \<Rightarrow> rat \<Rightarrow> 'g \<Rightarrow> rat \<times> 'g"

subsection \<open>\<open>_generate_sample_data\<close>\<close>

definition cities :: "string list" where
  "cities = [''New York'', ''San Francisco'', ''Los Angeles'', ''Chicago'',
             ''Boston'', ''Seattle'', ''Austin'', ''Miami'']"

definition room_types :: "string list" where
  "room_types = [''Entire home/apt'', ''Private room'', ''Shared room'', ''Hotel room'']"

definition property_types :: "string list" where
  "property_types = [''Apartment'', ''House'', ''Condo'', ''Townhouse'',
                     ''Loft'', ''Villa'', ''Cottage'']"

definition neighborhoods :: "string list" where
  "neighborhoods = [''Downtown'', ''Midtown'', ''Uptown'', ''Waterfront'',
                    ''Historic District'', ''Arts District'', ''Business District'']"

definition city_multipliers :: "(string \<times> rat) list" where
  "city_multipliers =
     [(''New York'', 3 / 2), (''San Francisco'', 7 / 5), (''Los Angeles'', 6 / 5),
      (''Boston'', 13 / 10), (''Seattle'', 6 / 5), (''Chicago'', 1),
      (''Austin'', 9 / 10), (''Miami'', 11 / 10)]"

text \<open>\<open>dict.get(key, default)\<close>.\<close>

definition dict_get :: "('k \<times> 'v) list \<Rightarrow> 'k \<Rightarrow> 'v \<Rightarrow> 'v" where
  "dict_get d k dflt = (case map_of d k of None \<Rightarrow> dflt | Some v \<Rightarrow> v)"

text \<open>\<open>round(x, 2)\<close>: to the nearest hundredth, a tie going to the even neighbour.\<close>

definition round_half_even :: "rat \<Rightarrow> int" where
  "round_half_even x =
     (let f = \<lfloor>x\<rfloor>; d = x - of_int f
      in if d < 1 / 2 then f else if 1 / 2 < d then f + 1 else if even f then f else f + 1)"

definition py_round2 :: "rat \<Rightarrow> rat" where
  "py_round2 x = of_int (round_half_even (x * 100)) / 100"

text \<open>The base price: the city multiplier, then the \<open>if/elif\<close> chain on the room type.\<close>

definition base_price :: "string \<Rightarrow> string \<Rightarrow> rat" where
  "base_price c rt =
     (let b = 100 * dict_get city_multipliers c 1
      in if rt = ''Entire home/apt'' then b * (3 / 2)
         else if rt = ''Private room'' then b * (7 / 10)
         else if rt = ''Shared room'' then b * (2 / 5)
         else if rt = ''Hotel room'' then b * (6 / 5)
         else b)"

text \<open>
  The truth value of \<open>review_scores_rating\<close> in \<open>... if review_scores_rating else 0\<close>:
  \<open>None\<close> and \<open>0.0\<close> are false.
\<close>

definition rating_term :: "rat option \<Rightarrow> rat" where
  "rating_term rating =
     (case rating of None \<Rightarrow> 0 | Some x \<Rightarrow> if x \<noteq> 0 then (x - 4) * 30 else 0)"

text \<open>The price before the noise factor is applied.\<close>

definition raw_price ::
  "rat \<Rightarrow> int \<Rightarrow> rat \<Rightarrow> int \<Rightarrow> bool \<Rightarrow> bool \<Rightarrow> bool \<Rightarrow> bool \<Rightarrow> bool \<Rightarrow> rat option \<Rightarrow> rat" where
  "raw_price base beds baths amen wifi kitchen parking pool superhost rating =
     base + of_int beds * 30 + baths * 20 + of_int amen * 2
       + (if wifi then 20 else 0) + (if kitchen then 30 else 0)
       + (if parking then 25 else 0) + (if pool then 40 else 0)
       + (if superhost then 30 else 0) + rating_term rating"

text \<open>\<open>price *= noise; price = max(30, round(price, 2))\<close>.\<close>

definition final_price :: "rat \<Rightarrow> rat \<Rightarrow> rat" where
  "final_price p noise = max 30 (py_round2 (p * noise))"

text \<open>One iteration of the loop body, for the loop index \<open>i\<close>.\<close>

definition gen_row :: "'g np_random \<Rightarrow> nat \<Rightarrow> 'g \<Rightarrow> listing \<times> 'g" where
  "gen_row R i g0 =
     (let (c, g1) = rnd_choice_str R cities None g0;
          (rt, g2) = rnd_choice_str R room_types (Some [1 / 2, 7 / 20, 1 / 10, 1 / 20]) g1;
          (pt, g3) = rnd_choice_str R property_types None g2;
          (nb, g4) = rnd_choice_str R neighborhoods None g3;
          (beds, g5) = rnd_randint R 1 6 g4;
          (baths, g6) = rnd_choice_num R [1, 3 / 2, 2, 5 / 2, 3]
                          (Some [3 / 10, 1 / 4, 1 / 4, 3 / 20, 1 / 20]) g5;
          (extra, g7) = rnd_randint R 0 3 g6;
          (reviews, g8) = rnd_poisson R 20 g7;
          (rating, g9) = (if 0 < reviews
                          then (let (u, g) = rnd_uniform R (7 / 2) 5 g8 in (Some u, g))
                          else (None, g8));
          (amen, g10) = rnd_randint R 5 25 g9;
          (wifi, g11) = rnd_choice_bool R [True, False] (Some [19 / 20, 1 / 20]) g10;
          (kitchen, g12) = rnd_choice_bool R [True, False] (Some [4 / 5, 1 / 5]) g11;
          (parking, g13) = rnd_choice_bool R [True, False] (Some [3 / 5, 2 / 5]) g12;
          (pool, g14) = rnd_choice_bool R [True, False] (Some [1 / 5, 4 / 5]) g13;
          (superhost, g15) = rnd_choice_bool R [True, False] (Some [3 / 10, 7 / 10]) g14;
          (hlc, g16) = rnd_choice_int R [1, 2, 3, 5, 10]
                         (Some [1 / 2, 1 / 5, 3 / 20, 1 / 10, 1 / 20]) g15;
          (instant, g17) = rnd_choice_bool R [True, False] (Some [3 / 5, 2 / 5]) g16;
          (min_nights, g18) = rnd_choice_int R [1, 2, 3, 7, 30]
                                (Some [1 / 2, 1 / 5, 3 / 20, 1 / 10, 1 / 20]) g17;
          (noise, g19) = rnd_uniform R (17 / 20) (23 / 20) g18;
          (avail, g20) = rnd_randint R 0 366 g19
      in (\<lparr>listing_id = int i + 1, city = c, neighborhood = nb, property_type = pt,
           room_type = rt, accommodates = beds * 2 + extra, bedrooms = beds,
           bathrooms = baths,
           price = final_price (raw_price (base_price c rt) beds baths amen wifi kitchen
                     parking pool superhost rating) noise,
           minimum_nights = min_nights, number_of_reviews = reviews,
           review_scores_rating = rating, host_is_superhost = PyBool superhost,
           host_listings_count = hlc, instant_bookable = PyBool instant,
           availability_365 = avail, num_amenities = amen, has_wifi = PyBool wifi,
           has_kitchen = PyBool kitchen, has_parking = PyBool parking,
           has_pool = PyBool pool\<rparr>, g20))"

text \<open>
  \<open>for i in range(n_listings)\<close>: the rows for the indices \<open>i, i + 1, ...\<close>, with \<open>k\<close>
  iterations left, in the order \<open>data.append\<close> collects them.
\<close>

fun gen_rows :: "'g np_random \<Rightarrow> nat \<Rightarrow> nat \<Rightarrow> 'g \<Rightarrow> dataset \<times> 'g" where
  "gen_rows R i 0 g = ([], g)"
| "gen_rows R i (Suc k) g =
     (let (row, g1) = gen_row R i g; (rows, g2) = gen_rows R (Suc i) k g1
      in (row # rows, g2))"

text \<open>
  The generator takes the global random state it finds and returns the dataset with the
  state it leaves. Its first statement is \<open>np.random.seed(42)\<close>. \<open>range(n)\<close> is empty
  for \<open>n <= 0\<close>.
\<close>

definition generate_sample_data :: "'g np_random \<Rightarrow> int \<Rightarrow> 'g \<Rightarrow> dataset \<times> 'g" where
  "generate_sample_data R n_listings g = gen_rows R 0 (nat n_listings) (rnd_seed R 42)"

subsection \<open>\<open>load_data\<close>\<close>

text \<open>
  What \<open>pd.read_csv\<close> raises is a subclass of \<open>Exception\<close>, named by its class. The
  file system and the parser are a function from the path to the parsed table or the
  exception raised.
\<close>

datatype py_exception = PyException string

type_synonym csv_reader = "string \<Rightarrow> py_exception + dataset"

text \<open>\<open>try: body  except Exception as e: handler\<close>.\<close>

definition try_except :: "py_exception + 'a \<Rightarrow> (py_exception \<Rightarrow> py_exception + 'a) \<Rightarrow> py_exception + 'a" where
  "try_except body handler = (case body of Inl e \<Rightarrow> handler e | Inr v \<Rightarrow> Inr v)"

definition load_data ::
  "'g np_random \<Rightarrow> csv_reader \<Rightarrow> string \<Rightarrow> 'g \<Rightarrow> py_exception + (dataset \<times> 'g)" where
  "load_data R read_csv data_source g =
     (if data_source = ''sample'' then Inr (generate_sample_data R 1000 g)
      else try_except
             (case read_csv data_source of Inl e \<Rightarrow> Inl e | Inr df \<Rightarrow> Inr (df, g))
             (\<lambda>e. Inr (generate_sample_data R 1000 g)))"

text \<open>
  A random source for test runs: the state counts the draws, a choice takes the first
  element and a numeric draw the lower bound.
\<close>

definition first_random :: "nat np_random" where
  "first_random =
     \<lparr>rnd_seed = (\<lambda>s. s),
      rnd_choice_str = (\<lambda>a p g. (case a of [] \<Rightarrow> [] | x # _ \<Rightarrow> x, Suc g)),
      rnd_choice_num = (\<lambda>a p g. (case a of [] \<Rightarrow> 0 | x # _ \<Rightarrow> x, Suc g)),
      rnd_choice_int = (\<lambda>a p g. (case a of [] \<Rightarrow> 0 | x # _ \<Rightarrow> x, Suc g)),
      rnd_choice_bool = (\<lambda>a p g. (case a of [] \<Rightarrow> False | x # _ \<Rightarrow> x, Suc g)),
      rnd_randint = (\<lambda>lo hi g. (lo, Suc g)),
      rnd_poisson = (\<lambda>lam g. (20, Suc g)),
      rnd_uniform = (\<lambda>lo hi g. (lo, Suc g))\<rparr>"

definition missing_file :: csv_reader where
  "missing_file path = Inl (PyException ''FileNotFoundError'')"

section \<open>The aggregator\<close>

subsection \<open>The SQL queries on amenities and host status\<close>

text \<open>
  \<open>create_database\<close> stores the table in SQLite, where a boolean cell is the integer 0
  or 1. \<open>GROUP BY col\<close> yields one group for each distinct value of the column, in
  ascending order of the value; \<open>AVG\<close> is the mean of a group, which is never empty;
  \<open>ROUND(x, 2)\<close> rounds to the nearest hundredth, a tie going away from zero.
\<close>

fun flag_int :: "flagv \<Rightarrow> int" where
  "flag_int (PyBool b) = (if b then 1 else 0)"
| "flag_int (PyInt i) = i"

definition group_by :: "(listing \<Rightarrow> int) \<Rightarrow> dataset \<Rightarrow> (int \<times> dataset) list" where
  "group_by key df = map (\<lambda>k. (k, filter (\<lambda>r. key r = k) df)) (sort (remdups (map key df)))"

definition avg :: "rat list \<Rightarrow> rat" where
  "avg xs = sum_list xs / of_nat (length xs)"

definition sql_round2 :: "rat \<Rightarrow> rat" where
  "sql_round2 x =
     (if 0 \<le> x then of_int \<lfloor>x * 100 + 1 / 2\<rfloor> / 100
      else - (of_int \<lfloor>- x * 100 + 1 / 2\<rfloor> / 100))"

text \<open>
  One \<open>SELECT CASE WHEN col = 1 THEN with ELSE without END, ROUND(AVG(price), 2)
  FROM listings GROUP BY col\<close>.
\<close>

definition amenity_select ::
  "(listing \<Rightarrow> flagv) \<Rightarrow> string \<Rightarrow> string \<Rightarrow> dataset \<Rightarrow> (string \<times> rat) list" where
  "amenity_select col with_label without_label df =
     map (\<lambda>(k, rows). (if k = 1 then with_label else without_label,
                        sql_round2 (avg (map price rows))))
       (group_by (\<lambda>r. flag_int (col r)) df)"

text \<open>Query 2 of \<open>perform_sql_analysis\<close>: the \<open>UNION ALL\<close> of its three selects.\<close>

definition amenity_impact :: "dataset \<Rightarrow> (string \<times> rat) list" where
  "amenity_impact df =
     amenity_select has_wifi ''With WiFi'' ''No WiFi'' df
     @ amenity_select has_kitchen ''With Kitchen'' ''No Kitchen'' df
     @ amenity_select has_pool ''With Pool'' ''No Pool'' df"

text \<open>Query 3 of \<open>perform_sql_analysis\<close>.\<close>

definition superhost_premium :: "dataset \<Rightarrow> (string \<times> rat \<times> nat) list" where
  "superhost_premium df =
     map (\<lambda>(k, rows). (if k = 1 then ''Superhost'' else ''Regular Host'',
                        sql_round2 (avg (map price rows)), length rows))
       (group_by (\<lambda>r. flag_int (host_is_superhost r)) df)"

text \<open>
  The with/without price difference of one amenity as \<open>create_visualizations\<close> computes
  it for each of \<open>has_wifi\<close>, \<open>has_kitchen\<close>, \<open>has_parking\<close> and \<open>has_pool\<close>; the mean of
  an empty selection is NaN, and so is a difference with NaN.
\<close>

definition mean_opt :: "rat list \<Rightarrow> rat option" where
  "mean_opt xs = (if xs = [] then None else Some (avg xs))"

definition amenity_difference :: "(listing \<Rightarrow> flagv) \<Rightarrow> dataset \<Rightarrow> rat option" where
  "amenity_difference col df =
     (case (mean_opt (map price (filter (\<lambda>r. flag_int (col r) = 1) df)),
            mean_opt (map price (filter (\<lambda>r. flag_int (col r) = 0) df))) of
        (Some w, Some wo) \<Rightarrow> Some (w - wo)
      | _ \<Rightarrow> None)"

definition chart_amenities :: "dataset \<Rightarrow> rat option list" where
  "chart_amenities df = map (\<lambda>col. amenity_difference col df) [has_wifi, has_kitchen, has_parking, has_pool]"

text \<open>
  A cleaned dataset whose two rows differ in parking and in price (the cleaner trims the
  first and the last of the four rows).
\<close>

definition parking_rows :: dataset where
  "parking_rows =
     clean_data [sample_row 1 50, (sample_row 2 100)\<lparr>has_parking := PyBool True\<rparr>,
                 sample_row 3 200, sample_row 4 300]"

subsection \<open>\<open>correlation_analysis\<close>\<close>

datatype numeric_col =
  Price | Accommodates | Bedrooms | Bathrooms | Minimum_nights | Number_of_reviews
  | Review_scores_rating | Host_listings_count | Availability_365 | Num_amenities

definition numeric_cols :: "numeric_col list" where
  "numeric_cols = [Price, Accommodates, Bedrooms, Bathrooms, Minimum_nights,
     Number_of_reviews, Review_scores_rating, Host_listings_count, Availability_365,
     Num_amenities]"

text \<open>The cell of a numeric column as a float; a missing cell is NaN.\<close>

fun cell :: "numeric_col \<Rightarrow> listing \<Rightarrow> real option" where
  "cell Price r = Some (of_rat (price r))"
| "cell Accommodates r = Some (of_int (accommodates r))"
| "cell Bedrooms r = Some (of_int (bedrooms r))"
| "cell Bathrooms r = Some (of_rat (bathrooms r))"
| "cell Minimum_nights r = Some (of_int (minimum_nights r))"
| "cell Number_of_reviews r = Some (of_int (number_of_reviews r))"
| "cell Review_scores_rating r = map_option of_rat (review_scores_rating r)"
| "cell Host_listings_count r = Some (of_int (host_listings_count r))"
| "cell Availability_365 r = Some (of_int (availability_365 r))"
| "cell Num_amenities r = Some (of_int (num_amenities r))"

text \<open>
  \<open>DataFrame.corr()\<close>: the Pearson coefficient of each pair of columns over the rows
  where both cells are present, with \<open>min_periods = 1\<close>; an entry is NaN when no such
  row exists or when the divisor is zero.
\<close>

fun both_present :: "real option \<times> real option \<Rightarrow> (real \<times> real) option" where
  "both_present (Some x, Some y) = Some (x, y)"
| "both_present _ = None"

definition pearson :: "(real \<times> real) list \<Rightarrow> real option" where
  "pearson ps =
     (let n = length ps
      in if n < 1 then None
         else
           let mx = sum_list (map fst ps) / of_nat n;
               my = sum_list (map snd ps) / of_nat n;
               ssx = sum_list (map (\<lambda>(x, y). (x - mx) * (x - mx)) ps);
               ssy = sum_list (map (\<lambda>(x, y). (y - my) * (y - my)) ps);
               cov = sum_list (map (\<lambda>(x, y). (x - mx) * (y - my)) ps);
               divisor = sqrt (ssx * ssy)
           in if divisor \<noteq> 0 then Some (cov / divisor) else None)"

definition corr_entry :: "dataset \<Rightarrow> numeric_col \<Rightarrow> numeric_col \<Rightarrow> real option" where
  "corr_entry df a b = pearson (List.map_filter both_present (zip (map (cell a) df) (map (cell b) df)))"

text \<open>The matrix, row by row in the order of \<open>numeric_cols\<close>.\<close>

definition correlation_analysis :: "dataset \<Rightarrow> real option list list" where
  "correlation_analysis df = map (\<lambda>a. map (\<lambda>b. corr_entry df a b) numeric_cols) numeric_cols"

section \<open>The predictor\<close>

text \<open>
  The twelve feature cells of a row, in the order of \<open>feature_cols\<close>; the rating is the
  one cell that can be missing.
\<close>

type_synonym features = "rat option list"

definition feature_vector :: "listing \<Rightarrow> features" where
  "feature_vector r =
     [Some (of_int (accommodates r)), Some (of_int (bedrooms r)), Some (bathrooms r),
      Some (of_int (num_amenities r)), Some (of_int (flag_int (host_is_superhost r))),
      Some (of_int (flag_int (instant_bookable r))), Some (of_int (flag_int (has_wifi r))),
      Some (of_int (flag_int (has_kitchen r))), Some (of_int (flag_int (has_parking r))),
      Some (of_int (flag_int (has_pool r))), Some (of_int (number_of_reviews r)),
      review_scores_rating r]"

text \<open>
  The calls into scikit-learn are the fields of \<open>sklearn\<close>, with \<open>'m\<close> the type of a
  fitted model. \<open>train_test_split\<close> takes the samples (the rows of \<open>X\<close> paired with
  those of \<open>y\<close>, which it splits alike), \<open>test_size\<close> and \<open>random_state\<close>, and returns the
  training and the test samples or raises. \<open>forest_fit\<close> takes \<open>n_estimators\<close>,
  \<open>random_state\<close> and the training data.
\<close>

record 'm sklearn =
  train_test_split ::
    "(features \<times> rat) list \<Rightarrow> rat \<Rightarrow> nat
       \<Rightarrow> py_exception + ((features \<times> rat) list \<times> (features \<times> rat) list)"
  forest_fit :: "nat \<Rightarrow> nat \<Rightarrow> features list \<Rightarrow> rat list \<Rightarrow> py_exception + 'm"
  forest_predict :: "'m \<Rightarrow> features list \<Rightarrow> real list"
  r2_score :: "real list \<Rightarrow> real list \<Rightarrow> real"

text \<open>\<open>mean_squared_error(y_test, y_pred)\<close> and \<open>np.mean(np.abs(y_test - y_pred))\<close>.\<close>

definition mean_squared_error :: "real list \<Rightarrow> real list \<Rightarrow> real" where
  "mean_squared_error y_true y_pred =
     sum_list (map (\<lambda>(y, p). (y - p) * (y - p)) (zip y_true y_pred)) / of_nat (length y_true)"

definition mean_abs_error :: "real list \<Rightarrow> real list \<Rightarrow> real" where
  "mean_abs_error y_true y_pred =
     sum_list (map (\<lambda>(y, p). \<bar>y - p\<bar>) (zip y_true y_pred)) / of_nat (length y_true)"

text \<open>
  What a run of \<open>build_price_prediction_model\<close> leaves: the fitted model it returns and
  the metric lines it prints, each a label with its value (the label of the first line is
  written with a superscript two in the source). The feature-importance table is left
  out.
\<close>

record 'm prediction_run =
  fitted_model :: 'm
  printed_metrics :: "(string \<times> real) list"

definition build_price_prediction_model ::
  "'m sklearn \<Rightarrow> dataset \<Rightarrow> py_exception + 'm prediction_run" where
  "build_price_prediction_model S df =
     (let samples = map (\<lambda>r. (feature_vector r, price r)) df
      in case train_test_split S samples (1 / 5) 42 of
           Inl e \<Rightarrow> Inl e
         | Inr (train, test) \<Rightarrow>
             (case forest_fit S 100 42 (map fst train) (map snd train) of
                Inl e \<Rightarrow> Inl e
              | Inr model \<Rightarrow>
                  let y_test = map (\<lambda>s. of_rat (snd s)) test;
                      y_pred = forest_predict S model (map fst test);
                      mse = mean_squared_error y_test y_pred;
                      rmse = sqrt mse;
                      r2 = r2_score S y_test y_pred
                  in Inr \<lparr>fitted_model = model,
                          printed_metrics =
                            [(''R2 Score'', r2), (''RMSE'', rmse),
                             (''Mean Absolute Error'', mean_abs_error y_test y_pred)]\<rparr>))"

text \<open>
  A stand-in library for test runs: the split takes the first fifth (rounded up) of the
  samples as the test set without shuffling and raises when nothing is left to train on,
  the model is the mean training price, and the coefficient of determination is the
  textbook formula.
\<close>

definition plain_split ::
  "(features \<times> rat) list \<Rightarrow> rat \<Rightarrow> nat
     \<Rightarrow> py_exception + ((features \<times> rat) list \<times> (features \<times> rat) list)" where
  "plain_split samples test_size seed =
     (let n = length samples; n_test = nat \<lceil>of_nat n * test_size\<rceil>
      in if n - n_test = 0 then Inl (PyException ''ValueError'')
         else Inr (drop n_test samples, take n_test samples))"

definition plain_r2 :: "real list \<Rightarrow> real list \<Rightarrow> real" where
  "plain_r2 y p =
     (let mean = sum_list y / of_nat (length y)
      in 1 - sum_list (map (\<lambda>(a, b). (a - b) * (a - b)) (zip y p))
             / sum_list (map (\<lambda>a. (a - mean) * (a - mean)) y))"

definition plain_sklearn :: "real sklearn" where
  "plain_sklearn =
     \<lparr>train_test_split = plain_split,
      forest_fit = (\<lambda>trees seed X y. Inr (of_rat (avg y))),
      forest_predict = (\<lambda>m X. map (\<lambda>x. m) X),
      r2_score = plain_r2\<rparr>"

text \<open>Eight listings of which the cleaner keeps the six in the middle.\<close>

definition eight_rows :: dataset where
  "eight_rows = [sample_row 1 5, sample_row 2 10, sample_row 3 16, sample_row 4 17,
                 sample_row 5 17, sample_row 6 17, sample_row 7 17, sample_row 8 30]"

text \<open>The feature cells of \<open>sample_row\<close> after cleaning.\<close>

definition sample_features :: features where
  "sample_features = [Some 2, Some 1, Some 1, Some 5, Some 0, Some 1, Some 1, Some 1,
                      Some 0, Some 0, Some 3, Some 4]"

text \<open>Three listings at one price.\<close>

definition equal_prices :: dataset where
  "equal_prices = [sample_row 1 80, sample_row 2 80, sample_row 3 80]"

section \<open>Properties of the cleaner\<close>

lemma fill_rating_keeps [simp]:
  "price (fill_rating m r) = price r" "listing_id (fill_rating m r) = listing_id r"
  by (simp_all add: fill_rating_def)

lemma convert_bools_keeps [simp]:
  "price (convert_bools r) = price r" "listing_id (convert_bools r) = listing_id r"
  "review_scores_rating (convert_bools r) = review_scores_rating r"
  by (simp_all add: convert_bools_def)

lemma price_comp_fill [simp]: "price \<circ> fill_rating m = price"
  by (simp add: fun_eq_iff)

lemma clean_data_filter:
  "clean_data df =
     map convert_bools (filter (\<lambda>r. in_band df (price r))
       (map (fill_rating (median (map review_scores_rating df))) df))"
  by (simp add: clean_data_def Let_def in_band_def)

lemma clean_data_id_price:
  "map id_price (clean_data df) = filter (\<lambda>(i, p). in_band df p) (map id_price df)"
  by (induction df) (simp_all add: clean_data_filter filter_map comp_def id_price_def)

text \<open>
  C2. After cleaning, the price of every remaining row lies between the 1st and the 99th
  percentile of the price column of the dataset before cleaning, both of which exist
  then. The identifier and price pairs of the cleaned dataset are those of the input that
  pass the test \<open>q01 <= price <= q99\<close>, so a price equal to a percentile is kept, and
  they form a subsequence of the input's: cleaning removes rows and adds none.
\<close>

theorem clean_data_price_band:
  "(\<forall>r \<in> set (clean_data df). \<exists>a b.
       quantile (map price df) (1 / 100) = Some a \<and>
       quantile (map price df) (99 / 100) = Some b \<and> a \<le> price r \<and> price r \<le> b)
   \<and> map id_price (clean_data df) = filter (\<lambda>(i, p). in_band df p) (map id_price df)
   \<and> subseq (map id_price (clean_data df)) (map id_price df)"
proof (intro conjI ballI)
  fix r assume "r \<in> set (clean_data df)"
  then have "in_band df (price r)"
    by (auto simp: clean_data_filter)
  then show "\<exists>a b. quantile (map price df) (1 / 100) = Some a \<and>
       quantile (map price df) (99 / 100) = Some b \<and> a \<le> price r \<and> price r \<le> b"
    by (auto simp: in_band_def ge_q_def le_q_def split: option.splits)
next
  show "map id_price (clean_data df) = filter (\<lambda>(i, p). in_band df p) (map id_price df)"
    by (rule clean_data_id_price)
  then show "subseq (map id_price (clean_data df)) (map id_price df)"
    by simp
qed

theorem clean_data_price_band_witness:
  "map id_price (clean_data five_rows) = [(2, 2), (3, 3), (4, 4)]
   \<and> (\<exists>r \<in> set (clean_data five_rows).
        quantile (map price five_rows) (1 / 100) = Some (26 / 25) \<and>
        quantile (map price five_rows) (99 / 100) = Some (124 / 25) \<and>
        26 / 25 \<le> price r \<and> price r \<le> 124 / 25)"
proof -
  have rows: "map id_price (clean_data five_rows) = [(2, 2), (3, 3), (4, 4)]"
    by code_simp
  have q: "quantile (map price five_rows) (1 / 100) = Some (26 / 25)"
    "quantile (map price five_rows) (99 / 100) = Some (124 / 25)"
    by code_simp+
  from rows have "clean_data five_rows \<noteq> []" by auto
  then obtain r where "r \<in> set (clean_data five_rows)"
    by (cases "clean_data five_rows") auto
  moreover from this clean_data_price_band [of five_rows]
  obtain a b where "quantile (map price five_rows) (1 / 100) = Some a"
    "quantile (map price five_rows) (99 / 100) = Some b" "a \<le> price r" "price r \<le> b"
    by blast
  ultimately show ?thesis using q rows by auto
qed

lemma median_None_iff: "median col = None \<longleftrightarrow> (\<forall>x \<in> set col. x = None)"
proof -
  have "List.map_filter id col = [] \<longleftrightarrow> (\<forall>x \<in> set col. x = None)"
    by (induction col) (auto simp: List.map_filter_simps split: option.splits)
  moreover have "sort (List.map_filter id col) = [] \<longleftrightarrow> List.map_filter id col = []"
    by (metis length_sort length_0_conv)
  ultimately show ?thesis
    by (simp add: median_def Let_def)
qed

lemma fillna_simps [simp]: "fillna None x = x" "fillna v (Some y) = Some y"
  by (simp_all add: fillna_def split: option.splits)

lemma astype_int_idem [simp]: "astype_int (astype_int f) = astype_int f"
  by (cases f) simp_all

lemma convert_bools_idem [simp]: "convert_bools (convert_bools r) = convert_bools r"
  by (simp add: convert_bools_def)

lemma clean_rows_converted: "r \<in> set (clean_data df) \<Longrightarrow> convert_bools r = r"
  by (auto simp: clean_data_filter)

lemma clean_rating_None:
  assumes "r \<in> set (clean_data df)" "review_scores_rating r = None"
  shows "median (map review_scores_rating (clean_data df)) = None"
proof -
  let ?m = "median (map review_scores_rating df)"
  from assms obtain r0 where r0: "r0 \<in> set df" "r = convert_bools (fill_rating ?m r0)"
    by (auto simp: clean_data_filter)
  with assms(2) have "fillna ?m (review_scores_rating r0) = None"
    by (simp add: fill_rating_def)
  then have m: "?m = None"
    by (cases "review_scores_rating r0") (simp_all add: fillna_def)
  then have all: "\<forall>x \<in> set df. review_scores_rating x = None"
    by (simp add: median_None_iff)
  have "\<forall>x \<in> set (clean_data df). review_scores_rating x = None"
    using all m by (auto simp: clean_data_filter fill_rating_def)
  then show ?thesis
    by (simp add: median_None_iff)
qed

lemma clean_rows_filled:
  assumes "r \<in> set (clean_data df)"
  shows "fill_rating (median (map review_scores_rating (clean_data df))) r = r"
proof (cases "review_scores_rating r")
  case None
  with assms clean_rating_None show ?thesis
    by (simp add: fill_rating_def)
next
  case (Some y)
  then show ?thesis by (simp add: fill_rating_def)
qed

lemma clean_data_twice_filter:
  "clean_data (clean_data df) = filter (\<lambda>r. in_band (clean_data df) (price r)) (clean_data df)"
proof -
  let ?cs = "clean_data df"
  have 1: "map (fill_rating (median (map review_scores_rating ?cs))) ?cs = ?cs"
    by (rule map_idI) (rule clean_rows_filled)
  have "clean_data ?cs = map convert_bools (filter (\<lambda>r. in_band ?cs (price r)) ?cs)"
    by (subst clean_data_filter) (simp only: 1)
  also have "\<dots> = filter (\<lambda>r. in_band ?cs (price r)) ?cs"
    by (rule map_idI) (auto intro: clean_rows_converted)
  finally show ?thesis .
qed

text \<open>
  C1, as amended. A second cleaning pass rewrites no cell of a dataset that one pass has
  produced: it only filters the rows by the 1st and 99th percentile recomputed on that
  dataset, and the six boolean columns of every row are already integers that the cast
  leaves as they are. When every price lies within the recomputed band the second pass
  removes no row; one pass alone does not bring a dataset into that state.
\<close>

theorem clean_data_second_pass:
  "clean_data (clean_data df) = filter (\<lambda>r. in_band (clean_data df) (price r)) (clean_data df)
   \<and> (\<forall>r \<in> set (clean_data df). convert_bools r = r)
   \<and> ((\<forall>r \<in> set (clean_data df). in_band (clean_data df) (price r))
        \<longrightarrow> clean_data (clean_data df) = clean_data df)"
  by (auto simp: clean_data_twice_filter clean_rows_converted filter_id_conv)

text \<open>
  C1, as stated, fails. The cleaner is not idempotent: of five rows priced 1 to 5 the first pass keeps the
  rows 2, 3 and 4, and a second pass on that result keeps row 3 only.
\<close>

theorem clean_data_not_idempotent:
  "map listing_id (clean_data five_rows) = [2, 3, 4]
   \<and> map listing_id (clean_data (clean_data five_rows)) = [3]"
  by code_simp


theorem clean_data_second_pass_witness:
  "list_all (\<lambda>r. in_band (clean_data equal_prices) (price r)) (clean_data equal_prices)
   \<and> clean_data (clean_data equal_prices) = clean_data equal_prices
   \<and> length (clean_data equal_prices) = 3"
proof -
  have a: "list_all (\<lambda>r. in_band (clean_data equal_prices) (price r)) (clean_data equal_prices)"
    by code_simp
  have b: "length (clean_data equal_prices) = 3" by code_simp
  from a have "\<forall>r \<in> set (clean_data equal_prices). in_band (clean_data equal_prices) (price r)"
    by (simp add: list_all_iff)
  with a b clean_data_second_pass [of equal_prices] show ?thesis by blast
qed

section \<open>Properties of the data source\<close>

lemma final_price_ge: "30 \<le> final_price p noise"
  by (simp add: final_price_def)

lemma price_gen_row: "30 \<le> price (fst (gen_row R i g))"
  by (simp add: gen_row_def split_def Let_def final_price_ge)

lemma gen_rows_price: "r \<in> set (fst (gen_rows R i k g)) \<Longrightarrow> 30 \<le> price r"
proof (induction k arbitrary: i g)
  case 0
  then show ?case by simp
next
  case (Suc k)
  then show ?case
    by (auto simp: split_def Let_def price_gen_row)
qed

lemma gen_rows_length: "length (fst (gen_rows R i k g)) = k"
  by (induction k arbitrary: i g) (simp_all add: split_def Let_def)

lemma clean_data_prices: "r \<in> set (clean_data df) \<Longrightarrow> \<exists>r0 \<in> set df. price r = price r0"
  by (auto simp: clean_data_filter)

text \<open>
  C8. Every row that the generator produces has a price of at least 30, and every row left
  after cleaning a generated dataset has a price of at least 30, hence a positive one. The
  generator produces one row for each of the \<open>n\<close> iterations.
\<close>

theorem generated_price_floor:
  "(\<forall>r \<in> set (fst (generate_sample_data R n g)). 30 \<le> price r)
   \<and> (\<forall>r \<in> set (clean_data (fst (generate_sample_data R n g))). 30 \<le> price r \<and> 0 < price r)
   \<and> length (fst (generate_sample_data R n g)) = nat n"
proof (intro conjI ballI)
  fix r assume "r \<in> set (fst (generate_sample_data R n g))"
  then show "30 \<le> price r"
    by (auto simp: generate_sample_data_def dest: gen_rows_price)
next
  fix r assume "r \<in> set (clean_data (fst (generate_sample_data R n g)))"
  then obtain r0 where "r0 \<in> set (fst (generate_sample_data R n g))" "price r = price r0"
    by (blast dest: clean_data_prices)
  then have "30 \<le> price r"
    by (auto simp: generate_sample_data_def dest: gen_rows_price)
  then show "30 \<le> price r" "0 < price r" by simp_all
next
  show "length (fst (generate_sample_data R n g)) = nat n"
    by (simp add: generate_sample_data_def gen_rows_length)
qed

theorem generated_price_floor_witness:
  "map price (fst (generate_sample_data first_random 3 0)) = [1411 / 4, 1411 / 4, 1411 / 4]
   \<and> map price (clean_data (fst (generate_sample_data first_random 3 0)))
       = [1411 / 4, 1411 / 4, 1411 / 4]
   \<and> list_all (\<lambda>r. 30 \<le> price r) (fst (generate_sample_data first_random 3 0))
   \<and> list_all (\<lambda>r. 0 < price r) (clean_data (fst (generate_sample_data first_random 3 0)))"
proof -
  have "map price (fst (generate_sample_data first_random 3 0)) = [1411 / 4, 1411 / 4, 1411 / 4]"
    by code_simp
  moreover have "map price (clean_data (fst (generate_sample_data first_random 3 0)))
       = [1411 / 4, 1411 / 4, 1411 / 4]"
    by code_simp
  ultimately show ?thesis
    using generated_price_floor [of first_random 3 0] by (simp add: list_all_iff)
qed

text \<open>
  C7. The generator reseeds the global random state before its first draw, so the dataset
  and the state it leaves do not depend on the state it finds: two runs with the same
  \<open>n\<close> give the same rows with the same values in the same order, whatever was drawn
  before either of them.
\<close>

theorem generate_sample_data_deterministic:
  "generate_sample_data R n g = generate_sample_data R n g'"
  by (simp add: generate_sample_data_def)

text \<open>
  C3. \<open>load_data\<close> returns a dataset for every source and every outcome of the read: no
  exception reaches the caller. When the source is a path and the read raises, the
  result is the synthetic dataset; when the read succeeds, it is the table read.
\<close>

theorem load_data_never_raises:
  "(\<exists>df g'. load_data R read_csv src g = Inr (df, g'))
   \<and> (src \<noteq> ''sample'' \<and> read_csv src = Inl e
        \<longrightarrow> load_data R read_csv src g = Inr (generate_sample_data R 1000 g))
   \<and> (src \<noteq> ''sample'' \<and> read_csv src = Inr df0
        \<longrightarrow> load_data R read_csv src g = Inr (df0, g))"
  by (cases "read_csv src"; cases "generate_sample_data R 1000 g")
     (simp_all add: load_data_def try_except_def)

theorem load_data_never_raises_witness:
  "''listings.csv'' \<noteq> ''sample''
   \<and> missing_file ''listings.csv'' = Inl (PyException ''FileNotFoundError'')
   \<and> load_data first_random missing_file ''listings.csv'' 7
       = Inr (generate_sample_data first_random 1000 7)"
  using load_data_never_raises [of first_random missing_file "''listings.csv''" 7
      "PyException ''FileNotFoundError''"]
  by (simp add: missing_file_def)

text \<open>
  C10. When the source is a path and the read raises, the dataset returned has exactly
  1000 rows, whatever file was asked for.
\<close>

theorem load_data_fallback_rows:
  assumes "src \<noteq> ''sample''" and "read_csv src = Inl e"
  shows "\<exists>df g'. load_data R read_csv src g = Inr (df, g') \<and> length df = 1000"
proof -
  obtain df g' where gen: "generate_sample_data R 1000 g = (df, g')"
    by (cases "generate_sample_data R 1000 g")
  then have "length df = 1000"
    using gen_rows_length [of R 0 1000 "rnd_seed R 42"]
    by (simp add: generate_sample_data_def)
  with assms gen show ?thesis
    by (simp add: load_data_def try_except_def)
qed

theorem load_data_fallback_rows_witness:
  "\<exists>df g'. load_data first_random missing_file ''listings.csv'' 7 = Inr (df, g')
     \<and> length df = 1000"
proof -
  have "''listings.csv'' \<noteq> ''sample''" by simp
  moreover have "missing_file ''listings.csv'' = Inl (PyException ''FileNotFoundError'')"
    by (simp add: missing_file_def)
  ultimately show ?thesis by (rule load_data_fallback_rows)
qed

section \<open>Properties of the aggregator\<close>

lemma amenity_select_ignores_parking:
  assumes "\<And>f r. col (has_parking_update f r) = col r"
  shows "amenity_select col w wo (map (has_parking_update f) df) = amenity_select col w wo df"
  by (simp add: amenity_select_def group_by_def filter_map comp_def assms)

lemma amenity_impact_ignores_parking:
  "amenity_impact (map (has_parking_update f) df) = amenity_impact df"
  by (simp add: amenity_impact_def amenity_select_ignores_parking)

text \<open>
  C5. On a cleaned dataset of two rows, one with parking at price 100 and one without at
  price 200, the amenity query returns rows for WiFi, kitchen and pool only: it has no
  select for \<open>has_parking\<close>. The chart code does compare all four flags, and finds the
  parking difference of -100 there.
\<close>

theorem amenity_impact_omits_parking:
  "map (\<lambda>r. (flag_int (has_parking r), price r)) parking_rows = [(1, 100), (0, 200)]
   \<and> amenity_impact parking_rows
       = [(''With WiFi'', 150), (''With Kitchen'', 150), (''No Pool'', 150)]
   \<and> superhost_premium parking_rows = [(''Regular Host'', 150, 2)]
   \<and> chart_amenities parking_rows = [None, None, Some (- 100), None]"
  by code_simp

lemma both_present_swap:
  "List.map_filter both_present (zip ys xs)
     = map prod.swap (List.map_filter both_present (zip xs ys))"
proof (induction xs arbitrary: ys)
  case Nil
  then show ?case by (simp add: List.map_filter_simps)
next
  case (Cons x xs)
  show ?case
  proof (cases ys)
    case Nil
    then show ?thesis by (simp add: List.map_filter_simps)
  next
    case (Cons y ys')
    with Cons.IH [of ys'] show ?thesis
      by (cases x; cases y) (simp_all add: List.map_filter_simps)
  qed
qed

lemma pearson_swap: "pearson (map prod.swap ps) = pearson ps"
  by (simp add: pearson_def Let_def comp_def split_def mult.commute)

lemma corr_entry_sym: "corr_entry df a b = corr_entry df b a"
  by (simp add: corr_entry_def both_present_swap [of "map (cell a) df"] pearson_swap)

lemma both_present_diag:
  "p \<in> set (List.map_filter both_present (zip xs xs)) \<Longrightarrow> fst p = snd p"
proof (induction xs)
  case Nil
  then show ?case by (simp add: List.map_filter_simps)
next
  case (Cons x xs)
  then show ?case
    by (cases x) (auto simp: List.map_filter_simps)
qed

lemma pearson_diag:
  assumes eq: "\<forall>p \<in> set ps. fst p = snd p" and def: "pearson ps = Some c"
  shows "c = 1"
proof -
  have snd_fst: "map snd ps = map fst ps"
    using eq by (induction ps) auto
  define m where "m = sum_list (map fst ps) / of_nat (length ps)"
  define s where "s = sum_list (map (\<lambda>(x, y). (x - m) * (x - m)) ps)"
  have ssy: "sum_list (map (\<lambda>(x, y). (y - m) * (y - m)) ps) = s"
    unfolding s_def using eq by (intro arg_cong [where f = sum_list] map_cong) auto
  have cov: "sum_list (map (\<lambda>(x, y). (x - m) * (y - m)) ps) = s"
    unfolding s_def using eq by (intro arg_cong [where f = sum_list] map_cong) auto
  have "0 \<le> s"
    unfolding s_def by (rule sum_list_nonneg) auto
  from def have "s \<noteq> 0 \<and> s / \<bar>s\<bar> = c"
    by (simp add: pearson_def Let_def snd_fst m_def [symmetric] ssy cov s_def [symmetric]
        split: if_splits)
  with \<open>0 \<le> s\<close> show ?thesis by auto
qed

lemma corr_entry_diag: "corr_entry df a a = Some c \<Longrightarrow> c = 1"
  unfolding corr_entry_def by (rule pearson_diag [rotated]) (auto dest: both_present_diag)

lemma length_numeric_cols: "length numeric_cols = 10"
  by (simp add: numeric_cols_def)

lemma correlation_analysis_nth:
  "i < 10 \<Longrightarrow> j < 10 \<Longrightarrow>
     correlation_analysis df ! i ! j = corr_entry df (numeric_cols ! i) (numeric_cols ! j)"
  by (simp add: correlation_analysis_def length_numeric_cols)

text \<open>
  C9. The correlation matrix over the ten numeric columns is symmetric, and every
  diagonal entry that is defined (not NaN) is 1.
\<close>

theorem correlation_symmetric_unit_diagonal:
  "\<forall>i < 10. \<forall>j < 10.
     correlation_analysis df ! i ! j = correlation_analysis df ! j ! i
     \<and> (correlation_analysis df ! i ! i \<noteq> None \<longrightarrow> correlation_analysis df ! i ! i = Some 1)"
  by (auto simp: correlation_analysis_nth corr_entry_sym dest: corr_entry_diag)

lemma price_column: "map (cell Price) df = map (\<lambda>p. Some (of_rat p)) (map price df)"
  by simp

theorem correlation_symmetric_unit_diagonal_witness:
  "correlation_analysis (clean_data five_rows) ! 0 ! 0 \<noteq> None
   \<and> correlation_analysis (clean_data five_rows) ! 0 ! 0 = Some 1"
proof -
  have prices: "map price (clean_data five_rows) = [2, 3, 4]"
    by code_simp
  have "corr_entry (clean_data five_rows) Price Price \<noteq> None"
    unfolding corr_entry_def price_column prices
    by (simp add: List.map_filter_simps pearson_def Let_def)
  moreover have "numeric_cols ! 0 = Price"
    by (simp add: numeric_cols_def)
  ultimately have "correlation_analysis (clean_data five_rows) ! 0 ! 0 \<noteq> None"
    by (simp add: correlation_analysis_nth)
  with correlation_symmetric_unit_diagonal [where df = "clean_data five_rows", rule_format, of 0 0]
  show ?thesis by simp
qed

section \<open>Properties of the predictor\<close>

lemma eight_rows_samples:
  "map (\<lambda>r. (feature_vector r, price r)) (clean_data eight_rows)
     = [(sample_features, 10), (sample_features, 16), (sample_features, 17),
        (sample_features, 17), (sample_features, 17), (sample_features, 17)]"
  by code_simp

lemma eight_rows_split:
  "plain_split [(sample_features, 10), (sample_features, 16), (sample_features, 17),
        (sample_features, 17), (sample_features, 17), (sample_features, 17)] (1 / 5) 42
     = Inr ([(sample_features, 17), (sample_features, 17), (sample_features, 17),
             (sample_features, 17)],
            [(sample_features, 10), (sample_features, 16)])"
  by code_simp

lemma sqrt_25: "sqrt 25 = 5"
  by (rule real_sqrt_unique) simp_all

lemma mean_squared_error_nonneg: "0 \<le> mean_squared_error y p"
  unfolding mean_squared_error_def
  by (intro divide_nonneg_nonneg sum_list_nonneg) auto

text \<open>
  C6, as stated, fails. The run on the six cleaned rows of \<open>eight_rows\<close> with the
  stand-in library: the two
  held-out prices are 10 and 16 and both predictions are 17, so the mean squared error
  is 25. The lines printed are the coefficient of determination, the root of the mean
  squared error and the mean absolute error; the mean squared error is not among them.
\<close>

theorem printed_metrics_without_mse:
  "map_sum id printed_metrics (build_price_prediction_model plain_sklearn (clean_data eight_rows))
     = Inr [(''R2 Score'', - (16 / 9)), (''RMSE'', 5), (''Mean Absolute Error'', 4)]
   \<and> mean_squared_error [10, 16] [17, 17] = 25"
  by (simp add: build_price_prediction_model_def eight_rows_samples plain_sklearn_def
      eight_rows_split avg_def mean_squared_error_def mean_abs_error_def plain_r2_def sqrt_25)

text \<open>
  C6, as amended. The predictor calls the split with a test size of one fifth and the
  seed 42 and fits the forest (100 trees, seed 42) on the training samples only. When
  both calls return, it returns the fitted model and prints exactly three metrics, all
  computed on the held-out samples: the coefficient of determination, the root mean
  squared error and the mean absolute error. The mean squared error is the square of the
  printed root and is not printed itself.
\<close>

theorem prediction_metrics:
  assumes "train_test_split S (map (\<lambda>r. (feature_vector r, price r)) df) (1 / 5) 42
             = Inr (train, test)"
    and "forest_fit S 100 42 (map fst train) (map snd train) = Inr m"
  shows "\<exists>run rmse. build_price_prediction_model S df = Inr run
           \<and> fitted_model run = m
           \<and> printed_metrics run =
               [(''R2 Score'', r2_score S (map (\<lambda>s. of_rat (snd s)) test)
                                 (forest_predict S m (map fst test))),
                (''RMSE'', rmse),
                (''Mean Absolute Error'', mean_abs_error (map (\<lambda>s. of_rat (snd s)) test)
                                 (forest_predict S m (map fst test)))]
           \<and> 0 \<le> rmse
           \<and> rmse * rmse = mean_squared_error (map (\<lambda>s. of_rat (snd s)) test)
                                 (forest_predict S m (map fst test))"
  using assms by (simp add: build_price_prediction_model_def Let_def mean_squared_error_nonneg)

theorem prediction_metrics_witness:
  "\<exists>run rmse. build_price_prediction_model plain_sklearn (clean_data eight_rows) = Inr run
     \<and> fitted_model run = 17
     \<and> printed_metrics run =
         [(''R2 Score'', plain_r2 [10, 16] [17, 17]), (''RMSE'', rmse),
          (''Mean Absolute Error'', mean_abs_error [10, 16] [17, 17])]
     \<and> 0 \<le> rmse \<and> rmse * rmse = mean_squared_error [10, 16] [17, 17]"
proof -
  let ?train = "[(sample_features, 17), (sample_features, 17), (sample_features, 17),
                 (sample_features, 17 :: rat)]"
  let ?test = "[(sample_features, 10), (sample_features, 16 :: rat)]"
  have split: "train_test_split plain_sklearn
                 (map (\<lambda>r. (feature_vector r, price r)) (clean_data eight_rows)) (1 / 5) 42
               = Inr (?train, ?test)"
    by (simp add: plain_sklearn_def eight_rows_samples eight_rows_split)
  have fit: "forest_fit plain_sklearn 100 42 (map fst ?train) (map snd ?train) = Inr 17"
    by (simp add: plain_sklearn_def avg_def)
  from prediction_metrics [OF split fit] show ?thesis
    by (simp add: plain_sklearn_def)
qed

end
